theory Spec2Isabelle
  imports Main
begin

section \<open>Strings\<close>

text \<open>
  Python strings are modelled as \<^typ>\<open>string\<close>; a \<^typ>\<open>char\<close> stands for a code point
  below 256. \<open>str.strip()\<close> with no argument removes the characters for which
  \<open>str.isspace\<close> holds; below 256 these are the twelve listed here.
\<close>

definition whitespace :: "char list" where
  "whitespace =
     [CHR 0x09, CHR 0x0A, CHR 0x0B, CHR 0x0C, CHR 0x0D,
      CHR 0x1C, CHR 0x1D, CHR 0x1E, CHR 0x1F, CHR 0x20, CHR 0x85, CHR 0xA0]"

definition isspace :: "char \<Rightarrow> bool" where
  "isspace c = (c \<in> set whitespace)"

definition strip :: "string \<Rightarrow> string" where
  "strip s = rev (dropWhile isspace (rev (dropWhile isspace s)))"

definition newline :: string where
  "newline = [CHR 0x0A]"

text \<open>\<open>sep.join(parts)\<close>.\<close>

fun str_join :: "string \<Rightarrow> string list \<Rightarrow> string" where
  "str_join sep [] = []"
| "str_join sep [x] = x"
| "str_join sep (x # y # ys) = x @ sep @ str_join sep (y # ys)"

text \<open>\<open>s.split(c)\<close> for a one-character separator: never the empty list.\<close>

fun str_split :: "char \<Rightarrow> string \<Rightarrow> string list" where
  "str_split c [] = [[]]"
| "str_split c (x # xs) =
     (if x = c then [] # str_split c xs
      else (case str_split c xs of
              [] \<Rightarrow> [[x]]
            | w # ws \<Rightarrow> (x # w) # ws))"

text \<open>\<open>sub in s\<close> on strings: \<open>sub\<close> occurs in \<open>s\<close> as a contiguous run.\<close>

fun startswith :: "string \<Rightarrow> string \<Rightarrow> bool" where
  "startswith s [] = True"
| "startswith [] (p # ps) = False"
| "startswith (c # cs) (p # ps) = (c = p \<and> startswith cs ps)"

fun str_contains :: "string \<Rightarrow> string \<Rightarrow> bool" where
  "str_contains sub [] = (sub = [])"
| "str_contains sub (c # cs) = (startswith (c # cs) sub \<or> str_contains sub cs)"

text \<open>\<open>str(n)\<close> for a non-negative integer: its decimal digits.\<close>

definition digit_char :: "nat \<Rightarrow> char" where
  "digit_char d = ''0123456789'' ! d"

function str_nat :: "nat \<Rightarrow> string" where
  "str_nat n = (if n < 10 then [digit_char n] else str_nat (n div 10) @ [digit_char (n mod 10)])"
  by pat_completeness auto
termination
  by (relation "measure id") auto

declare str_nat.simps [simp del]

section \<open>The parsed document\<close>

text \<open>
  The tree \<open>BeautifulSoup(content, 'html.parser')\<close> builds: a \<open>Tag\<close> has a name, an
  attribute dictionary and its children; a \<open>NavigableString\<close> is a piece of text. The
  \<open>BeautifulSoup\<close> object itself is given by the list of its top-level children.
  The attribute dictionary is an association list read with \<^const>\<open>map_of\<close>.
\<close>

datatype node =
    Tag string "(string \<times> string) list" "node list"
  | NavigableString string

type_synonym soup = "node list"

text \<open>\<open>get_text()\<close>: the strings below the node, in document order, concatenated.\<close>

fun get_text :: "node \<Rightarrow> string" where
  "get_text (NavigableString s) = s"
| "get_text (Tag n a cs) = concat (map get_text cs)"

definition soup_get_text :: "soup \<Rightarrow> string" where
  "soup_get_text sp = concat (map get_text sp)"

text \<open>
  \<open>a == b\<close> on nodes. Two tags are equal when their names, their attribute
  dictionaries and, pairwise, their children are; two strings when their text is;
  a tag and a string never are.
\<close>

definition attrs_eq :: "(string \<times> string) list \<Rightarrow> (string \<times> string) list \<Rightarrow> bool" where
  "attrs_eq a b =
     (list_all (\<lambda>k. map_of a k = map_of b k) (map fst a) \<and>
      list_all (\<lambda>k. map_of a k = map_of b k) (map fst b))"

fun node_eq :: "node \<Rightarrow> node \<Rightarrow> bool"
  and nodes_eq :: "node list \<Rightarrow> node list \<Rightarrow> bool" where
  "node_eq (Tag n a cs) (Tag n' a' cs') = (n = n' \<and> attrs_eq a a' \<and> nodes_eq cs cs')"
| "node_eq (NavigableString s) (NavigableString t) = (s = t)"
| "node_eq (Tag n a cs) (NavigableString t) = False"
| "node_eq (NavigableString s) (Tag n' a' cs') = False"
| "nodes_eq [] [] = True"
| "nodes_eq (x # xs) (y # ys) = (node_eq x y \<and> nodes_eq xs ys)"
| "nodes_eq [] (y # ys) = False"
| "nodes_eq (x # xs) [] = False"

text \<open>
  \<open>soup.find(id=anchor)\<close>: the first tag, in document order, whose \<open>id\<close> attribute
  matches. A tag that has an \<open>id\<close> matches when the value is the anchor. A tag with no
  \<open>id\<close> matches only the empty anchor: this is the rule of the library's releases up to
  4.12, where a missing value matches an empty search value; later releases match no
  tag without an \<open>id\<close>. Nothing proved below depends on the empty anchor: the general
  statements are about whatever the search returns, and the examples search for
  anchors that are not empty. The tag is returned with its place among its siblings:
  those before it and those after it, both in document order.
\<close>

definition id_matches :: "string option \<Rightarrow> string \<Rightarrow> bool" where
  "id_matches v anchor = (case v of None \<Rightarrow> anchor = [] | Some s \<Rightarrow> s = anchor)"

type_synonym element = "node list \<times> node \<times> node list"

fun find_from :: "string \<Rightarrow> node list \<Rightarrow> node list \<Rightarrow> element option" where
  "find_from anchor prev [] = None"
| "find_from anchor prev (NavigableString s # rest) =
     find_from anchor (prev @ [NavigableString s]) rest"
| "find_from anchor prev (Tag n a cs # rest) =
     (if id_matches (map_of a ''id'') anchor then Some (prev, Tag n a cs, rest)
      else (case find_from anchor [] cs of
              Some el \<Rightarrow> Some el
            | None \<Rightarrow> find_from anchor (prev @ [Tag n a cs]) rest))"

definition find_id :: "soup \<Rightarrow> string \<Rightarrow> element option" where
  "find_id sp anchor = find_from anchor [] sp"

text \<open>\<open>element.next_siblings\<close> and \<open>element.previous_siblings\<close> (nearest first).\<close>

fun next_siblings :: "element \<Rightarrow> node list" where
  "next_siblings (prev, e, nxt) = nxt"

fun previous_siblings :: "element \<Rightarrow> node list" where
  "previous_siblings (prev, e, nxt) = rev prev"

fun the_node :: "element \<Rightarrow> node" where
  "the_node (prev, e, nxt) = e"

text \<open>
  What the loops add for one sibling: a tag with a non-empty name gives its text, a
  string gives itself stripped, anything else nothing.
\<close>

fun sibling_text :: "node \<Rightarrow> string list" where
  "sibling_text (Tag n a cs) = (if n \<noteq> [] then [get_text (Tag n a cs)] else [])"
| "sibling_text (NavigableString s) = [strip s]"

section \<open>Extraction within one document\<close>

text \<open>Every routine returns its value together with the lines it printed.\<close>

type_synonym 'a printed = "'a \<times> string list"

definition extract_text_after_anchor :: "soup \<Rightarrow> string \<Rightarrow> string printed" where
  "extract_text_after_anchor sp anchor =
     (case find_id sp anchor of
        None \<Rightarrow> ([], [''Anchor not found in the document.''])
      | Some element \<Rightarrow>
          (let result = (if get_text (the_node element) \<noteq> []
                         then [get_text (the_node element)] else []);
               result = foldl (\<lambda>r sibling. r @ sibling_text sibling) result
                          (next_siblings element)
           in (str_join newline result, [])))"

definition extract_text_before_anchor :: "soup \<Rightarrow> string \<Rightarrow> string printed" where
  "extract_text_before_anchor sp anchor =
     (case find_id sp anchor of
        None \<Rightarrow> ([], [''Anchor not found in the document.''])
      | Some element \<Rightarrow>
          (let result = foldl (\<lambda>r sibling. sibling_text sibling @ r) []
                          (previous_siblings element)
           in (strip (str_join newline result), [])))"

text \<open>The sibling walk of the third routine, which stops at the end element.\<close>

fun between_loop :: "node \<Rightarrow> node list \<Rightarrow> string list \<Rightarrow> string list" where
  "between_loop end_element [] result = result"
| "between_loop end_element (sibling # rest) result =
     (if node_eq sibling end_element then result
      else between_loop end_element rest (result @ sibling_text sibling))"

definition extract_text_between_anchors :: "soup \<Rightarrow> string \<Rightarrow> string \<Rightarrow> string printed" where
  "extract_text_between_anchors sp start_anchor end_anchor =
     (let start_element = find_id sp start_anchor;
          end_element = find_id sp end_anchor
      in case start_element of
           None \<Rightarrow> extract_text_before_anchor sp end_anchor
         | Some se \<Rightarrow>
             (case end_element of
                None \<Rightarrow> extract_text_after_anchor sp start_anchor
              | Some ee \<Rightarrow>
                  (let result = (if get_text (the_node se) \<noteq> []
                                 then [get_text (the_node se)] else []);
                       result = between_loop (the_node ee) (next_siblings se) result
                   in (strip (str_join newline result), []))))"

section \<open>Extraction across the documents of a book\<close>

text \<open>
  An item of the book is given by its \<open>file_name\<close> and the tree that
  \<open>BeautifulSoup(item.get_content(), 'html.parser', from_encoding=...)\<close> builds from its
  content; the parser is a function of the content, so every parse of one item gives the
  same tree.
\<close>

record item =
  file_name :: string
  parsed :: soup

text \<open>The same-document search: the first item whose file name contains the name.\<close>

fun same_document_loop :: "string \<Rightarrow> string \<Rightarrow> string \<Rightarrow> item list \<Rightarrow> string printed" where
  "same_document_loop start_name start_anchor end_anchor [] = ([], [''href not found.''])"
| "same_document_loop start_name start_anchor end_anchor (item # rest) =
     (if str_contains start_name (file_name item)
      then extract_text_between_anchors (parsed item) start_anchor end_anchor
      else same_document_loop start_name start_anchor end_anchor rest)"

text \<open>The scan over all items: \<open>flag\<close>, \<open>text\<close> and the lines printed so far.\<close>

record scan =
  flag :: bool
  text_acc :: string
  out :: "string list"

definition scan_step ::
  "string \<Rightarrow> string \<Rightarrow> string \<Rightarrow> string \<Rightarrow> scan \<Rightarrow> item \<Rightarrow> scan" where
  "scan_step start_name start_anchor end_name end_anchor st item =
     (if str_contains start_name (file_name item) then
        (if start_anchor \<noteq> [] then
           (case extract_text_after_anchor (parsed item) start_anchor of
              (t, pr) \<Rightarrow> st\<lparr>flag := True, text_acc := text_acc st @ t, out := out st @ pr\<rparr>)
         else st\<lparr>flag := True, text_acc := text_acc st @ soup_get_text (parsed item)\<rparr>)
      else if str_contains end_name (file_name item) then
        (if end_anchor \<noteq> [] then
           (case extract_text_before_anchor (parsed item) end_anchor of
              (t, pr) \<Rightarrow> st\<lparr>flag := False, text_acc := text_acc st @ t, out := out st @ pr\<rparr>)
         else st\<lparr>flag := False\<rparr>)
      else if flag st then st\<lparr>text_acc := text_acc st @ soup_get_text (parsed item)\<rparr>
      else st)"

definition scan_loop ::
  "string \<Rightarrow> string \<Rightarrow> string \<Rightarrow> string \<Rightarrow> item list \<Rightarrow> scan \<Rightarrow> scan" where
  "scan_loop start_name start_anchor end_name end_anchor book st =
     foldl (scan_step start_name start_anchor end_name end_anchor) st book"

definition href_name :: "string \<Rightarrow> string" where
  "href_name href = hd (str_split CHR ''#'' href)"

definition href_anchor :: "string \<Rightarrow> string" where
  "href_anchor href =
     (if CHR ''#'' \<in> set href then str_split CHR ''#'' href ! 1 else [])"

definition extract_text_by_bookmark :: "item list \<Rightarrow> string \<Rightarrow> string \<Rightarrow> string printed" where
  "extract_text_by_bookmark book start_href end_href =
     (let start_name = href_name start_href;
          end_name = href_name end_href;
          start_anchor = href_anchor start_href;
          end_anchor = href_anchor end_href
      in if start_name = end_name
         then same_document_loop start_name start_anchor end_anchor book
         else (let st = scan_loop start_name start_anchor end_name end_anchor book
                          \<lparr>flag = False, text_acc = [], out = []\<rparr>
               in (text_acc st, out st)))"

section \<open>Bookmarks and chapters\<close>

text \<open>
  An entry of the table of contents is an \<open>epub.Link\<close> with a title and an href, or a
  pair of a section and the list of its entries.
\<close>

datatype toc =
    Link string string
  | Group string "toc list"

type_synonym bookmark = "string \<times> string"

text \<open>The loop of \<open>extract_bookmarks\<close>, on the pair of \<open>bookmarks\<close> and \<open>titles\<close>.\<close>

fun bookmarks_loop ::
  "string \<Rightarrow> toc list \<Rightarrow> bookmark list \<times> string list \<Rightarrow> bookmark list \<times> string list" where
  "bookmarks_loop prefix [] st = st"
| "bookmarks_loop prefix (Link item_title href # rest) (bookmarks, titles) =
     (let title = (if prefix \<noteq> [] then prefix @ ''|'' @ item_title else item_title);
          titles = titles @ [title];
          title = (if title \<in> set (butlast titles)
                   then title @ str_nat (count_list titles title + 1) else title)
      in bookmarks_loop prefix rest (bookmarks @ [(title, href)], titles))"
| "bookmarks_loop prefix (Group section_title children # rest) (bookmarks, titles) =
     bookmarks_loop prefix rest
       (bookmarks @ fst (bookmarks_loop section_title children ([], [])), titles)"

definition extract_bookmarks :: "toc list \<Rightarrow> string \<Rightarrow> bookmark list" where
  "extract_bookmarks tc prefix = fst (bookmarks_loop prefix tc ([], []))"

record chapter_dict =
  title :: string
  content :: string

record book =
  toc_of :: "toc list"
  get_items :: "item list"

definition split_step ::
  "book \<Rightarrow> bookmark list \<Rightarrow> nat \<Rightarrow> chapter_dict list printed \<Rightarrow> nat \<times> bookmark \<Rightarrow> chapter_dict list printed" where
  "split_step bk bookmarks n acc entry =
     (case (acc, entry) of
        ((chapters, pr), (i, (ttl, href))) \<Rightarrow>
          (let end_href = (if i < n - 1 then snd (bookmarks ! (i + 1)) else []);
               r = extract_text_by_bookmark (get_items bk) href end_href
           in (chapters @ [\<lparr>title = ttl, content = fst r\<rparr>], pr @ snd r @ [ttl])))"

definition split_text_by_bookmarks :: "book \<Rightarrow> chapter_dict list printed" where
  "split_text_by_bookmarks bk =
     (let bookmarks = extract_bookmarks (toc_of bk) [];
          n = length bookmarks
      in foldl (split_step bk bookmarks n) ([], []) (enumerate 0 bookmarks))"

section \<open>The pieces of a scan\<close>

text \<open>
  For the statements about the scan: what a start document and an end document add to
  the text, and the list of what the documents of a book add, one entry for each
  document that adds something, in the order of the collection. The flag tells whether
  the last document seen that was a start or an end document was a start document.
\<close>

definition start_text :: "string \<Rightarrow> item \<Rightarrow> string" where
  "start_text start_anchor item =
     (if start_anchor \<noteq> [] then fst (extract_text_after_anchor (parsed item) start_anchor)
      else soup_get_text (parsed item))"

definition end_text :: "string \<Rightarrow> item \<Rightarrow> string" where
  "end_text end_anchor item =
     (if end_anchor \<noteq> [] then fst (extract_text_before_anchor (parsed item) end_anchor)
      else [])"

fun document_texts ::
  "string \<Rightarrow> string \<Rightarrow> string \<Rightarrow> string \<Rightarrow> bool \<Rightarrow> item list \<Rightarrow> string list" where
  "document_texts start_name start_anchor end_name end_anchor f [] = []"
| "document_texts start_name start_anchor end_name end_anchor f (item # rest) =
     (if str_contains start_name (file_name item)
      then start_text start_anchor item
             # document_texts start_name start_anchor end_name end_anchor True rest
      else if str_contains end_name (file_name item)
      then end_text end_anchor item
             # document_texts start_name start_anchor end_name end_anchor False rest
      else if f
      then soup_get_text (parsed item)
             # document_texts start_name start_anchor end_name end_anchor True rest
      else document_texts start_name start_anchor end_name end_anchor f rest)"

text \<open>The fragments the walk between two found anchors collects.\<close>

definition own_text :: "element \<Rightarrow> string list" where
  "own_text el = (if get_text (the_node el) \<noteq> [] then [get_text (the_node el)] else [])"

definition fragments_between :: "element \<Rightarrow> element \<Rightarrow> string list" where
  "fragments_between se ee =
     own_text se @
     concat (map sibling_text
       (takeWhile (\<lambda>sibling. \<not> node_eq sibling (the_node ee)) (next_siblings se)))"

text \<open>
  The fragments collected after an anchor (its own text and every following sibling)
  and before an anchor (every preceding sibling, in document order).
\<close>

definition fragments_after :: "element \<Rightarrow> string list" where
  "fragments_after el = own_text el @ concat (map sibling_text (next_siblings el))"

definition fragments_before :: "element \<Rightarrow> string list" where
  "fragments_before el = concat (map sibling_text (rev (previous_siblings el)))"

section \<open>Operations that can raise\<close>

text \<open>
  In the routines above, two kinds of operation raise in Python when they are used out
  of their domain: \<open>xs[i]\<close> raises \<open>IndexError\<close> when \<open>i\<close> is out of range (the reads
  \<open>split("#")[0]\<close>, \<open>split("#")[1]\<close> and \<open>bookmarks[i+1]\<close>), and a member read on
  \<open>None\<close> raises \<open>AttributeError\<close> (\<open>element.get_text()\<close>, \<open>element.next_siblings\<close> and
  \<open>element.previous_siblings\<close> on what \<open>soup.find\<close> returned). Here the routines are
  written once more with these operations as they are, an exception being the value
  \<open>Inl\<close>; parsing and the detection of the encoding stay outside, as before. In
  \<open>extract_bookmarks\<close> the reads \<open>item[0]\<close> and \<open>item[1]\<close> are on a pair, which has
  both, and slices and \<open>count\<close> do not raise, so that routine is as above.
\<close>

datatype error = IndexError | AttributeError

definition exc_bind :: "error + 'a \<Rightarrow> ('a \<Rightarrow> error + 'b) \<Rightarrow> error + 'b" where
  "exc_bind m f = (case m of Inl e \<Rightarrow> Inl e | Inr x \<Rightarrow> f x)"

definition getitem :: "'a list \<Rightarrow> nat \<Rightarrow> error + 'a" where
  "getitem xs i = (if i < length xs then Inr (xs ! i) else Inl IndexError)"

definition member :: "element option \<Rightarrow> error + element" where
  "member element = (case element of None \<Rightarrow> Inl AttributeError | Some el \<Rightarrow> Inr el)"

definition extract_text_after_anchor_exc :: "soup \<Rightarrow> string \<Rightarrow> error + string printed" where
  "extract_text_after_anchor_exc sp anchor =
     (let element = find_id sp anchor
      in if element = None then Inr ([], [''Anchor not found in the document.''])
         else exc_bind (member element) (\<lambda>el.
           (let result = (if get_text (the_node el) \<noteq> [] then [get_text (the_node el)] else []);
                result = foldl (\<lambda>r sibling. r @ sibling_text sibling) result (next_siblings el)
            in Inr (str_join newline result, []))))"

definition extract_text_before_anchor_exc :: "soup \<Rightarrow> string \<Rightarrow> error + string printed" where
  "extract_text_before_anchor_exc sp anchor =
     (let element = find_id sp anchor
      in if element = None then Inr ([], [''Anchor not found in the document.''])
         else exc_bind (member element) (\<lambda>el.
           (let result = foldl (\<lambda>r sibling. sibling_text sibling @ r) [] (previous_siblings el)
            in Inr (strip (str_join newline result), []))))"

text \<open>
  In the walk between the anchors only the start element is read; the end element is
  compared with each sibling, and no sibling is equal to \<open>None\<close>.
\<close>

definition extract_text_between_anchors_exc ::
  "soup \<Rightarrow> string \<Rightarrow> string \<Rightarrow> error + string printed" where
  "extract_text_between_anchors_exc sp start_anchor end_anchor =
     (let start_element = find_id sp start_anchor;
          end_element = find_id sp end_anchor
      in if start_element = None then extract_text_before_anchor_exc sp end_anchor
         else if end_element = None then extract_text_after_anchor_exc sp start_anchor
         else exc_bind (member start_element) (\<lambda>se.
           (let result = (if get_text (the_node se) \<noteq> [] then [get_text (the_node se)] else []);
                result = (case end_element of
                            Some ee \<Rightarrow> between_loop (the_node ee) (next_siblings se) result
                          | None \<Rightarrow> foldl (\<lambda>r sibling. r @ sibling_text sibling) result
                                      (next_siblings se))
            in Inr (strip (str_join newline result), []))))"

fun same_document_loop_exc ::
  "string \<Rightarrow> string \<Rightarrow> string \<Rightarrow> item list \<Rightarrow> error + string printed" where
  "same_document_loop_exc start_name start_anchor end_anchor [] = Inr ([], [''href not found.''])"
| "same_document_loop_exc start_name start_anchor end_anchor (item # rest) =
     (if str_contains start_name (file_name item)
      then extract_text_between_anchors_exc (parsed item) start_anchor end_anchor
      else same_document_loop_exc start_name start_anchor end_anchor rest)"

definition scan_step_exc ::
  "string \<Rightarrow> string \<Rightarrow> string \<Rightarrow> string \<Rightarrow> scan \<Rightarrow> item \<Rightarrow> error + scan" where
  "scan_step_exc start_name start_anchor end_name end_anchor st item =
     (if str_contains start_name (file_name item) then
        (if start_anchor \<noteq> [] then
           exc_bind (extract_text_after_anchor_exc (parsed item) start_anchor) (\<lambda>r.
             Inr (st\<lparr>flag := True, text_acc := text_acc st @ fst r, out := out st @ snd r\<rparr>))
         else Inr (st\<lparr>flag := True, text_acc := text_acc st @ soup_get_text (parsed item)\<rparr>))
      else if str_contains end_name (file_name item) then
        (if end_anchor \<noteq> [] then
           exc_bind (extract_text_before_anchor_exc (parsed item) end_anchor) (\<lambda>r.
             Inr (st\<lparr>flag := False, text_acc := text_acc st @ fst r, out := out st @ snd r\<rparr>))
         else Inr (st\<lparr>flag := False\<rparr>))
      else if flag st then Inr (st\<lparr>text_acc := text_acc st @ soup_get_text (parsed item)\<rparr>)
      else Inr st)"

fun scan_loop_exc ::
  "string \<Rightarrow> string \<Rightarrow> string \<Rightarrow> string \<Rightarrow> item list \<Rightarrow> scan \<Rightarrow> error + scan" where
  "scan_loop_exc start_name start_anchor end_name end_anchor [] st = Inr st"
| "scan_loop_exc start_name start_anchor end_name end_anchor (item # rest) st =
     exc_bind (scan_step_exc start_name start_anchor end_name end_anchor st item)
       (\<lambda>st'. scan_loop_exc start_name start_anchor end_name end_anchor rest st')"

definition extract_text_by_bookmark_exc ::
  "item list \<Rightarrow> string \<Rightarrow> string \<Rightarrow> error + string printed" where
  "extract_text_by_bookmark_exc book start_href end_href =
     exc_bind (getitem (str_split CHR ''#'' start_href) 0) (\<lambda>start_name.
     exc_bind (getitem (str_split CHR ''#'' end_href) 0) (\<lambda>end_name.
     exc_bind (if CHR ''#'' \<in> set start_href then getitem (str_split CHR ''#'' start_href) 1
               else Inr []) (\<lambda>start_anchor.
     exc_bind (if CHR ''#'' \<in> set end_href then getitem (str_split CHR ''#'' end_href) 1
               else Inr []) (\<lambda>end_anchor.
       if start_name = end_name
       then same_document_loop_exc start_name start_anchor end_anchor book
       else exc_bind (scan_loop_exc start_name start_anchor end_name end_anchor book
                        \<lparr>flag = False, text_acc = [], out = []\<rparr>)
              (\<lambda>st. Inr (text_acc st, out st))))))"

definition split_step_exc ::
  "book \<Rightarrow> bookmark list \<Rightarrow> nat \<Rightarrow> chapter_dict list printed \<Rightarrow> nat \<times> bookmark \<Rightarrow>
     error + chapter_dict list printed" where
  "split_step_exc bk bookmarks n acc entry =
     (case (acc, entry) of
        ((chapters, pr), (i, (ttl, href))) \<Rightarrow>
          exc_bind (if i < n - 1
                    then exc_bind (getitem bookmarks (i + 1)) (\<lambda>b. Inr (snd b))
                    else Inr []) (\<lambda>end_href.
          exc_bind (extract_text_by_bookmark_exc (get_items bk) href end_href) (\<lambda>r.
            Inr (chapters @ [\<lparr>title = ttl, content = fst r\<rparr>], pr @ snd r @ [ttl]))))"

fun split_loop_exc ::
  "book \<Rightarrow> bookmark list \<Rightarrow> nat \<Rightarrow> (nat \<times> bookmark) list \<Rightarrow> chapter_dict list printed \<Rightarrow>
     error + chapter_dict list printed" where
  "split_loop_exc bk bookmarks n [] acc = Inr acc"
| "split_loop_exc bk bookmarks n (entry # rest) acc =
     exc_bind (split_step_exc bk bookmarks n acc entry)
       (\<lambda>acc'. split_loop_exc bk bookmarks n rest acc')"

definition split_text_by_bookmarks_exc :: "book \<Rightarrow> error + chapter_dict list printed" where
  "split_text_by_bookmarks_exc bk =
     (let bookmarks = extract_bookmarks (toc_of bk) [];
          n = length bookmarks
      in split_loop_exc bk bookmarks n (enumerate 0 bookmarks) ([], []))"

section \<open>Facts about the helpers\<close>

text \<open>
  \<open>split\<close> never returns the empty list and returns at least two parts when the separator
  occurs, so the reads \<open>[0]\<close> and \<open>[1]\<close> of \<^const>\<open>href_name\<close> and \<^const>\<open>href_anchor\<close>
  are in range.
\<close>

lemma str_split_not_Nil: "str_split c s \<noteq> []"
  by (induction s) (auto split: list.splits)

lemma str_split_length: "c \<in> set s \<Longrightarrow> 2 \<le> length (str_split c s)"
proof (induction s)
  case Nil
  then show ?case by simp
next
  case (Cons x xs)
  show ?case
  proof (cases "x = c")
    case True
    have "str_split c xs \<noteq> []" by (rule str_split_not_Nil)
    then have "1 \<le> length (str_split c xs)" by (cases "str_split c xs") auto
    with True show ?thesis by simp
  next
    case False
    with Cons.prems have "c \<in> set xs" by auto
    then have "2 \<le> length (str_split c xs)" by (rule Cons.IH)
    with False show ?thesis by (auto split: list.splits)
  qed
qed

text \<open>The empty string is contained in every string.\<close>

lemma str_contains_Nil: "str_contains [] s"
  by (induction s) auto

text \<open>The bookmarks collected so far are only ever extended.\<close>

lemma bookmarks_loop_append:
  "fst (bookmarks_loop p tc (bms, ts)) = bms @ fst (bookmarks_loop p tc ([], ts))"
proof (induction tc arbitrary: bms ts)
  case Nil
  then show ?case by simp
next
  case (Cons entry rest)
  show ?case
  proof (cases entry)
    case (Link item_title href)
    define t where "t = (if p \<noteq> [] then p @ ''|'' @ item_title else item_title)"
    define t' where "t' = (if t \<in> set ts then t @ str_nat (count_list (ts @ [t]) t + 1) else t)"
    have "fst (bookmarks_loop p (entry # rest) (bms, ts)) =
            fst (bookmarks_loop p rest (bms @ [(t', href)], ts @ [t]))"
      by (simp add: Link t_def t'_def Let_def)
    also have "\<dots> = (bms @ [(t', href)]) @ fst (bookmarks_loop p rest ([], ts @ [t]))"
      by (rule Cons.IH)
    also have "\<dots> = bms @ fst (bookmarks_loop p rest ([(t', href)], ts @ [t]))"
      using Cons.IH [of "[(t', href)]" "ts @ [t]"] by simp
    also have "\<dots> = bms @ fst (bookmarks_loop p (entry # rest) ([], ts))"
      by (simp add: Link t_def t'_def Let_def)
    finally show ?thesis .
  next
    case (Group section_title children)
    let ?g = "fst (bookmarks_loop section_title children ([], []))"
    have "fst (bookmarks_loop p (entry # rest) (bms, ts)) =
            (bms @ ?g) @ fst (bookmarks_loop p rest ([], ts))"
      using Cons.IH [of "bms @ ?g" ts] by (simp add: Group)
    also have "\<dots> = bms @ fst (bookmarks_loop p rest (?g, ts))"
      using Cons.IH [of ?g ts] by simp
    finally show ?thesis by (simp add: Group)
  qed
qed

text \<open>The result of \<open>strip\<close> has no white space at either end, so stripping it again changes nothing.\<close>

lemma dropWhile_strip: "dropWhile isspace (strip s) = strip s"
proof (cases "strip s")
  case Nil
  then show ?thesis by simp
next
  case (Cons c cs)
  let ?t = "dropWhile isspace s"
  have "\<exists>zs. ?t = strip s @ zs"
    unfolding strip_def by (metis rev_append rev_rev_ident takeWhile_dropWhile_id)
  then obtain zs where zs: "?t = (c # cs) @ zs" using Cons by auto
  then have "hd ?t = c" and "?t \<noteq> []" by simp_all
  then have "\<not> isspace c" using hd_dropWhile [of isspace s] by auto
  then show ?thesis using Cons by simp
qed

lemma strip_strip: "strip (strip s) = strip s"
proof -
  have "strip (strip s) = rev (dropWhile isspace (rev (strip s)))"
    by (simp add: strip_def [of "strip s"] dropWhile_strip)
  also have "\<dots> = rev (dropWhile isspace (dropWhile isspace (rev (dropWhile isspace s))))"
    by (simp add: strip_def)
  also have "\<dots> = strip s"
    by (simp add: strip_def)
  finally show ?thesis .
qed

text \<open>The three sibling walks, as lists.\<close>

lemma between_loop_takeWhile:
  "between_loop e xs r = r @ concat (map sibling_text (takeWhile (\<lambda>x. \<not> node_eq x e) xs))"
  by (induction xs arbitrary: r) auto

lemma after_loop_concat:
  "foldl (\<lambda>r sibling. r @ sibling_text sibling) r xs = r @ concat (map sibling_text xs)"
  by (induction xs arbitrary: r) auto

lemma before_loop_concat:
  "foldl (\<lambda>r sibling. sibling_text sibling @ r) r xs = concat (map sibling_text (rev xs)) @ r"
  by (induction xs arbitrary: r) auto

lemma between_found:
  "find_id sp s = Some se \<Longrightarrow> find_id sp e = Some ee \<Longrightarrow>
   extract_text_between_anchors sp s e = (strip (str_join newline (fragments_between se ee)), [])"
  by (simp add: extract_text_between_anchors_def Let_def between_loop_takeWhile
      fragments_between_def own_text_def)

text \<open>The same-document search returns at the first item whose file name contains the name.\<close>

lemma same_document_loop_find:
  "same_document_loop sn sa ea bk =
     (case List.find (\<lambda>it. str_contains sn (file_name it)) bk of
        None \<Rightarrow> ([], [''href not found.''])
      | Some it \<Rightarrow> extract_text_between_anchors (parsed it) sa ea)"
  by (induction bk) auto

text \<open>The text of a scan is the text it started with, followed by what the documents add.\<close>

lemma scan_loop_text:
  "text_acc (scan_loop sn sa en ea bk st) =
     text_acc st @ concat (document_texts sn sa en ea (flag st) bk)"
proof (induction bk arbitrary: st)
  case Nil
  then show ?case by (simp add: scan_loop_def)
next
  case (Cons it rest)
  have step: "scan_loop sn sa en ea (it # rest) st =
                scan_loop sn sa en ea rest (scan_step sn sa en ea st it)"
    by (simp add: scan_loop_def)
  show ?case
    unfolding step Cons.IH
    by (simp add: scan_step_def start_text_def end_text_def split: prod.splits)
qed

lemma document_texts_append:
  "str_contains sn (file_name it) \<Longrightarrow>
   document_texts sn sa en ea f (pre @ it # post) =
     document_texts sn sa en ea f pre @ start_text sa it # document_texts sn sa en ea True post"
  by (induction pre arbitrary: f) auto

lemma multi_document_text:
  "href_name sh \<noteq> href_name eh \<Longrightarrow>
   fst (extract_text_by_bookmark bk sh eh) =
     concat (document_texts (href_name sh) (href_anchor sh) (href_name eh) (href_anchor eh)
               False bk)"
  by (simp add: extract_text_by_bookmark_def Let_def scan_loop_text)

text \<open>
  With the empty end name every document is a start document or an end document, and an
  end document with no end anchor adds nothing: only the start documents add text.
\<close>

lemma document_texts_empty_end:
  "concat (document_texts sn sa [] [] f bk) =
     concat (map (start_text sa) (filter (\<lambda>it. str_contains sn (file_name it)) bk))"
  by (induction bk arbitrary: f) (simp_all add: str_contains_Nil end_text_def)

lemma empty_end_href_text:
  assumes "href_name sh \<noteq> []"
  shows "fst (extract_text_by_bookmark bk sh []) =
           concat (map (start_text (href_anchor sh))
             (filter (\<lambda>it. str_contains (href_name sh) (file_name it)) bk))"
proof -
  have e: "href_name [] = []" "href_anchor [] = []"
    by (simp_all add: href_name_def href_anchor_def)
  with assms have "href_name sh \<noteq> href_name []" by simp
  then show ?thesis
    by (simp add: multi_document_text e document_texts_empty_end)
qed

text \<open>The chapters collected so far are only ever extended, one chapter for each bookmark.\<close>

lemma split_step_titles:
  "map title (fst (split_step bk bms n acc e)) = map title (fst acc) @ [fst (snd e)]"
  by (cases acc, cases e) (simp add: split_step_def Let_def split: prod.splits)

lemma split_loop_titles:
  "map title (fst (foldl (split_step bk bms n) acc es)) =
     map title (fst acc) @ map (fst \<circ> snd) es"
proof (induction es arbitrary: acc)
  case Nil
  then show ?case by simp
next
  case (Cons e es)
  have "map title (fst (foldl (split_step bk bms n) acc (e # es))) =
          map title (fst (split_step bk bms n acc e)) @ map (fst \<circ> snd) es"
    using Cons.IH [of "split_step bk bms n acc e"] by simp
  then show ?case by (simp add: split_step_titles)
qed

text \<open>What the routines return in each case of the same-document search.\<close>

lemma after_fragments:
  "find_id sp a = Some se \<Longrightarrow>
   extract_text_after_anchor sp a = (str_join newline (fragments_after se), [])"
  by (simp add: extract_text_after_anchor_def Let_def after_loop_concat fragments_after_def
      own_text_def)

lemma before_fragments:
  "find_id sp a = Some ee \<Longrightarrow>
   extract_text_before_anchor sp a = (strip (str_join newline (fragments_before ee)), [])"
  by (simp add: extract_text_before_anchor_def Let_def before_loop_concat fragments_before_def)

lemma same_document_not_found:
  "href_name sh = href_name eh \<Longrightarrow>
   List.find (\<lambda>it. str_contains (href_name sh) (file_name it)) bk = None \<Longrightarrow>
   extract_text_by_bookmark bk sh eh = ([], [''href not found.''])"
  by (simp add: extract_text_by_bookmark_def Let_def same_document_loop_find)

lemma same_document_found:
  "href_name sh = href_name eh \<Longrightarrow>
   List.find (\<lambda>it. str_contains (href_name sh) (file_name it)) bk = Some it \<Longrightarrow>
   extract_text_by_bookmark bk sh eh =
     extract_text_between_anchors (parsed it) (href_anchor sh) (href_anchor eh)"
  by (simp add: extract_text_by_bookmark_def Let_def same_document_loop_find)

lemma strip_Nil: "strip [] = []"
  by (simp add: strip_def)

text \<open>
  Every index read and every member read of the routines is in its domain: written with
  the operations that can raise, each routine returns, and returns what the routine
  above returns.
\<close>

lemma getitem_split_0: "getitem (str_split c s) 0 = Inr (hd (str_split c s))"
  using str_split_not_Nil [of c s] by (cases "str_split c s") (simp_all add: getitem_def)

lemma getitem_name: "getitem (str_split CHR ''#'' h) 0 = Inr (href_name h)"
  by (simp add: getitem_split_0 href_name_def)

lemma getitem_anchor:
  "(if CHR ''#'' \<in> set h then getitem (str_split CHR ''#'' h) 1 else Inr []) = Inr (href_anchor h)"
  using str_split_length [of "CHR ''#''" h] by (auto simp add: getitem_def href_anchor_def)

lemma after_anchor_returns:
  "extract_text_after_anchor_exc sp anchor = Inr (extract_text_after_anchor sp anchor)"
  by (cases "find_id sp anchor")
    (simp_all add: extract_text_after_anchor_exc_def extract_text_after_anchor_def
      exc_bind_def member_def Let_def)

lemma before_anchor_returns:
  "extract_text_before_anchor_exc sp anchor = Inr (extract_text_before_anchor sp anchor)"
  by (cases "find_id sp anchor")
    (simp_all add: extract_text_before_anchor_exc_def extract_text_before_anchor_def
      exc_bind_def member_def Let_def)

lemma between_anchors_returns:
  "extract_text_between_anchors_exc sp sa ea = Inr (extract_text_between_anchors sp sa ea)"
  by (cases "find_id sp sa"; cases "find_id sp ea")
    (simp_all add: extract_text_between_anchors_exc_def extract_text_between_anchors_def
      after_anchor_returns before_anchor_returns exc_bind_def member_def Let_def)

lemma same_document_loop_returns:
  "same_document_loop_exc sn sa ea bk = Inr (same_document_loop sn sa ea bk)"
  by (induction bk) (simp_all add: between_anchors_returns)

lemma scan_step_returns:
  "scan_step_exc sn sa en ea st it = Inr (scan_step sn sa en ea st it)"
  by (simp add: scan_step_exc_def scan_step_def after_anchor_returns before_anchor_returns exc_bind_def
      split: prod.splits)

lemma scan_loop_returns:
  "scan_loop_exc sn sa en ea bk st = Inr (scan_loop sn sa en ea bk st)"
  by (induction bk arbitrary: st) (simp_all add: scan_step_returns scan_loop_def exc_bind_def)

lemma by_bookmark_returns:
  "extract_text_by_bookmark_exc bk sh eh = Inr (extract_text_by_bookmark bk sh eh)"
  unfolding extract_text_by_bookmark_exc_def getitem_name getitem_anchor
  by (simp add: extract_text_by_bookmark_def same_document_loop_returns scan_loop_returns
      exc_bind_def Let_def)

lemma split_step_returns:
  "n = length bms \<Longrightarrow> split_step_exc bk bms n acc e = Inr (split_step bk bms n acc e)"
  by (cases acc, cases e)
    (auto simp add: split_step_exc_def split_step_def by_bookmark_returns getitem_def exc_bind_def
      Let_def)

lemma split_loop_returns:
  "n = length bms \<Longrightarrow>
   split_loop_exc bk bms n es acc = Inr (foldl (split_step bk bms n) acc es)"
  by (induction es arbitrary: acc) (simp_all add: split_step_returns exc_bind_def)

lemma split_returns: "split_text_by_bookmarks_exc bk = Inr (split_text_by_bookmarks bk)"
  by (simp add: split_text_by_bookmarks_exc_def split_text_by_bookmarks_def Let_def split_loop_returns)

section \<open>The empty end reference\<close>

text \<open>
  C1. The claim: with \<open>end_href == ""\<close> the result holds, after the start document's
  text, the full text of every document that follows it. On the code the end name is
  then the empty string, which every file name contains, so every item that is not a
  start document takes the end branch and adds nothing. Here the book has the documents
  \<open>a.html\<close> (text \<open>A\<close>) and \<open>b.html\<close> (text \<open>B\<close>); the text from \<open>a.html\<close> to the end
  is \<open>A\<close>, without the \<open>B\<close> the claim asks for.
\<close>

theorem empty_end_href_drops_following_documents:
  "extract_text_by_bookmark
     [\<lparr>file_name = ''a.html'', parsed = [NavigableString ''A'']\<rparr>,
      \<lparr>file_name = ''b.html'', parsed = [NavigableString ''B'']\<rparr>] ''a.html'' [] = (''A'', [])"
  by (simp add: extract_text_by_bookmark_def href_name_def href_anchor_def scan_loop_def
      scan_step_def soup_get_text_def Let_def)

section \<open>Titles\<close>

text \<open>
  C2. The claim: two leaves titled \<open>A\<close> give the titles \<open>A\<close> and \<open>A2\<close>. On the code the
  title is appended to \<open>titles\<close> before it is counted, so the second \<open>A\<close> is counted
  twice and gets the suffix \<open>3\<close>.
\<close>

theorem duplicate_title_gets_suffix_3:
  "extract_bookmarks [Link ''A'' h1, Link ''A'' h2] [] = [(''A'', h1), (''A3'', h2)]"
  by (simp add: extract_bookmarks_def str_nat.simps digit_char_def Let_def)

text \<open>
  C10. The bookmarks of a group are those of a fresh call on its children, whatever
  titles were seen before it, and the titles seen inside the group are not seen after
  it. So a title met at the top level and in a group, or in two groups, comes out twice
  with no suffix.
\<close>

theorem group_titles_are_deduplicated_alone:
  "extract_bookmarks (Group section_title children # rest) prefix =
      extract_bookmarks children section_title @ extract_bookmarks rest prefix
   \<and> map fst (extract_bookmarks [Link ''G|A'' h1, Group ''G'' [Link ''A'' h2]] [])
        = [''G|A'', ''G|A'']
   \<and> map fst (extract_bookmarks [Group ''G'' [Link ''A'' h1], Group ''G'' [Link ''A'' h2]] [])
        = [''G|A'', ''G|A'']"
proof (intro conjI)
  show "extract_bookmarks (Group section_title children # rest) prefix =
      extract_bookmarks children section_title @ extract_bookmarks rest prefix"
    using bookmarks_loop_append [of prefix rest "extract_bookmarks children section_title" "[]"]
    by (simp add: extract_bookmarks_def)
  show "map fst (extract_bookmarks [Link ''G|A'' h1, Group ''G'' [Link ''A'' h2]] [])
          = [''G|A'', ''G|A'']"
    by (simp add: extract_bookmarks_def Let_def)
  show "map fst (extract_bookmarks [Group ''G'' [Link ''A'' h1], Group ''G'' [Link ''A'' h2]] [])
          = [''G|A'', ''G|A'']"
    by (simp add: extract_bookmarks_def Let_def)
qed

section \<open>Between two anchors\<close>

text \<open>
  C7. When the end anchor is not found, the text between the anchors is the text after
  the start anchor; when the start anchor is not found, it is the text before the end
  anchor. Both the returned string and the printed lines agree.
\<close>

theorem between_anchors_falls_back:
  "(find_id sp end_anchor = None \<longrightarrow>
      extract_text_between_anchors sp start_anchor end_anchor =
        extract_text_after_anchor sp start_anchor)
   \<and> (find_id sp start_anchor = None \<longrightarrow>
      extract_text_between_anchors sp start_anchor end_anchor =
        extract_text_before_anchor sp end_anchor)"
  by (auto simp: extract_text_between_anchors_def extract_text_after_anchor_def
      extract_text_before_anchor_def Let_def split: option.splits)

theorem between_anchors_falls_back_witness:
  "find_id [Tag ''p'' [(''id'', ''s'')] [NavigableString ''X''], NavigableString '' Y ''] ''e''
      = None
   \<and> extract_text_between_anchors
        [Tag ''p'' [(''id'', ''s'')] [NavigableString ''X''], NavigableString '' Y ''] ''s'' ''e''
      = extract_text_after_anchor
        [Tag ''p'' [(''id'', ''s'')] [NavigableString ''X''], NavigableString '' Y ''] ''s''
   \<and> extract_text_after_anchor
        [Tag ''p'' [(''id'', ''s'')] [NavigableString ''X''], NavigableString '' Y ''] ''s''
      = (''X\<newline>Y'', [])
   \<and> find_id [NavigableString '' W '', Tag ''p'' [(''id'', ''e'')] [NavigableString ''X'']] ''s''
      = None
   \<and> extract_text_between_anchors
        [NavigableString '' W '', Tag ''p'' [(''id'', ''e'')] [NavigableString ''X'']] ''s'' ''e''
      = extract_text_before_anchor
        [NavigableString '' W '', Tag ''p'' [(''id'', ''e'')] [NavigableString ''X'']] ''e''
   \<and> extract_text_before_anchor
        [NavigableString '' W '', Tag ''p'' [(''id'', ''e'')] [NavigableString ''X'']] ''e''
      = (''W'', [])"
  using between_anchors_falls_back
          [of "[Tag ''p'' [(''id'', ''s'')] [NavigableString ''X''], NavigableString '' Y '']"
              "''e''" "''s''"]
        between_anchors_falls_back
          [of "[NavigableString '' W '', Tag ''p'' [(''id'', ''e'')] [NavigableString ''X'']]"
              "''e''" "''s''"]
  by (simp add: find_id_def id_matches_def extract_text_after_anchor_def
      extract_text_before_anchor_def strip_def isspace_def whitespace_def newline_def Let_def)

text \<open>
  C8. A document whose top level is an element with id \<open>s\<close> and text \<open>X\<close>, a \<open>p\<close> with
  text \<open>Y\<close> and an element with id \<open>e\<close> and text \<open>Z\<close>: the text between \<open>s\<close> and \<open>e\<close>
  is \<open>X\<close>, a newline and \<open>Y\<close>, and nothing is printed. The names of the two anchor
  elements do not matter.
\<close>

theorem between_anchors_example:
  "extract_text_between_anchors
     [Tag n1 [(''id'', ''s'')] [NavigableString ''X''],
      Tag ''p'' [] [NavigableString ''Y''],
      Tag n3 [(''id'', ''e'')] [NavigableString ''Z'']] ''s'' ''e'' = (''X\<newline>Y'', [])"
  by (simp add: extract_text_between_anchors_def find_id_def id_matches_def attrs_eq_def
      strip_def isspace_def whitespace_def newline_def Let_def)

text \<open>
  C3. The claim: with the same anchor at both ends the result is the anchor node's own
  text and nothing else. On the code the walk over the following siblings stops only
  at a sibling that compares equal to the end element, and the anchor node is not among
  its own following siblings: a \<open>p\<close> with id \<open>s\<close> and text \<open>X\<close> followed by a \<open>p\<close> with
  text \<open>Y\<close> gives \<open>X\<close>, a newline and \<open>Y\<close>.
\<close>

theorem same_anchor_twice_counterexample:
  "find_id [Tag ''p'' [(''id'', ''s'')] [NavigableString ''X''],
            Tag ''p'' [] [NavigableString ''Y'']] ''s''
      = Some ([], Tag ''p'' [(''id'', ''s'')] [NavigableString ''X''],
              [Tag ''p'' [] [NavigableString ''Y'']])
   \<and> get_text (Tag ''p'' [(''id'', ''s'')] [NavigableString ''X'']) = ''X''
   \<and> fst (extract_text_between_anchors
        [Tag ''p'' [(''id'', ''s'')] [NavigableString ''X''],
         Tag ''p'' [] [NavigableString ''Y'']] ''s'' ''s'')
      = ''X\<newline>Y''"
  by (simp add: extract_text_between_anchors_def find_id_def id_matches_def attrs_eq_def
      strip_def isspace_def whitespace_def newline_def Let_def)

text \<open>
  C3, as the code has it. When the anchor is found, the result for the same anchor at
  both ends is the node's own text (if not empty) and the text of its following
  siblings up to the first one that compares equal to the node, joined by newlines and
  stripped; nothing is printed. It is the node's own text, stripped, when the node has
  no following sibling.
\<close>

theorem same_anchor_twice:
  "find_id sp anchor = Some el \<Longrightarrow>
   extract_text_between_anchors sp anchor anchor =
     (strip (str_join newline (own_text el @
        concat (map sibling_text
          (takeWhile (\<lambda>sibling. \<not> node_eq sibling (the_node el)) (next_siblings el))))), [])
   \<and> (next_siblings el = [] \<longrightarrow>
        extract_text_between_anchors sp anchor anchor = (strip (get_text (the_node el)), []))"
  by (simp add: between_found fragments_between_def own_text_def)

theorem same_anchor_twice_witness:
  "find_id [Tag ''p'' [(''id'', ''s'')] [NavigableString ''X''], NavigableString '' Y '',
            Tag ''p'' [(''id'', ''s'')] [NavigableString ''X''],
            Tag ''p'' [] [NavigableString ''Z'']] ''s''
      = Some ([], Tag ''p'' [(''id'', ''s'')] [NavigableString ''X''],
              [NavigableString '' Y '', Tag ''p'' [(''id'', ''s'')] [NavigableString ''X''],
               Tag ''p'' [] [NavigableString ''Z'']])
   \<and> extract_text_between_anchors
        [Tag ''p'' [(''id'', ''s'')] [NavigableString ''X''], NavigableString '' Y '',
         Tag ''p'' [(''id'', ''s'')] [NavigableString ''X''],
         Tag ''p'' [] [NavigableString ''Z'']] ''s'' ''s''
      = (''X\<newline>Y'', [])
   \<and> find_id [Tag ''p'' [(''id'', ''t'')] [NavigableString '' X '']] ''t''
      = Some ([], Tag ''p'' [(''id'', ''t'')] [NavigableString '' X ''], [])
   \<and> extract_text_between_anchors [Tag ''p'' [(''id'', ''t'')] [NavigableString '' X '']] ''t'' ''t''
      = (''X'', [])"
  using same_anchor_twice
          [of "[Tag ''p'' [(''id'', ''s'')] [NavigableString ''X''], NavigableString '' Y '',
                Tag ''p'' [(''id'', ''s'')] [NavigableString ''X''],
                Tag ''p'' [] [NavigableString ''Z'']]" "''s''"
              "([], Tag ''p'' [(''id'', ''s'')] [NavigableString ''X''],
                [NavigableString '' Y '', Tag ''p'' [(''id'', ''s'')] [NavigableString ''X''],
                 Tag ''p'' [] [NavigableString ''Z'']])"]
        same_anchor_twice
          [of "[Tag ''p'' [(''id'', ''t'')] [NavigableString '' X '']]" "''t''"
              "([], Tag ''p'' [(''id'', ''t'')] [NavigableString '' X ''], [])"]
  by (simp add: find_id_def id_matches_def attrs_eq_def own_text_def strip_def isspace_def
      whitespace_def newline_def)

section \<open>Lookups that fail\<close>

text \<open>
  C6. The claim: whenever a document or an anchor is not found, the routines return the
  empty string for that part and print a diagnostic. On the code, the text between two
  anchors falls back to the other helper when one anchor is missing, and returns that
  helper's text with nothing printed: between the missing \<open>s\<close> and \<open>e\<close> the result is
  \<open>W\<close>. And when the two references name different documents, a start document that is
  not in the book is not reported: from \<open>a.html\<close> to \<open>b.html#y\<close>, in a book that has
  only \<open>b.html\<close>, the result is \<open>Hi\<close> with nothing printed.
\<close>

theorem lookup_failure_counterexample:
  "find_id [NavigableString '' W '', Tag ''p'' [(''id'', ''e'')] [NavigableString ''X'']] ''s''
      = None
   \<and> extract_text_between_anchors
        [NavigableString '' W '', Tag ''p'' [(''id'', ''e'')] [NavigableString ''X'']] ''s'' ''e''
      = (''W'', [])
   \<and> filter (\<lambda>it. str_contains ''a.html'' (file_name it))
        [\<lparr>file_name = ''b.html'',
          parsed = [Tag ''p'' [] [NavigableString ''Hi''],
                    Tag ''p'' [(''id'', ''y'')] [NavigableString ''Z'']]\<rparr>] = []
   \<and> extract_text_by_bookmark
        [\<lparr>file_name = ''b.html'',
          parsed = [Tag ''p'' [] [NavigableString ''Hi''],
                    Tag ''p'' [(''id'', ''y'')] [NavigableString ''Z'']]\<rparr>]
        ''a.html'' ''b.html#y''
      = (''Hi'', [])"
  by (simp add: extract_text_by_bookmark_def href_name_def href_anchor_def scan_loop_def
      scan_step_def soup_get_text_def Let_def strip_def isspace_def whitespace_def newline_def
      extract_text_between_anchors_def extract_text_before_anchor_def find_id_def
      id_matches_def)

text \<open>
  C6, as the code has it. When the anchor is not found, the text after it and the text
  before it are the empty string, and \<open>Anchor not found in the document.\<close> is printed;
  so it is for the text between two anchors when neither is found. In the scan over
  several documents, a start document in which the start anchor is given and not found,
  and an end document in which the end anchor is given and not found, add nothing to
  the text and print that line. When both references name the same document and no
  file name of the book contains that name, the result is the empty string and
  \<open>href not found.\<close> is printed. No routine raises: written with the index reads and
  member reads that can raise, each of them, up to \<open>split_text_by_bookmarks\<close>, returns
  on every input.
\<close>

theorem lookup_failure_is_reported:
  "(find_id sp anchor = None \<longrightarrow>
      extract_text_after_anchor sp anchor = ([], [''Anchor not found in the document.''])
      \<and> extract_text_before_anchor sp anchor = ([], [''Anchor not found in the document.'']))
   \<and> (find_id sp start_anchor = None \<longrightarrow> find_id sp end_anchor = None \<longrightarrow>
      extract_text_between_anchors sp start_anchor end_anchor =
        ([], [''Anchor not found in the document.'']))
   \<and> (str_contains sn (file_name item) \<longrightarrow> sa \<noteq> [] \<longrightarrow> find_id (parsed item) sa = None \<longrightarrow>
      scan_step sn sa en ea st item =
        st\<lparr>flag := True, out := out st @ [''Anchor not found in the document.'']\<rparr>)
   \<and> (\<not> str_contains sn (file_name item) \<longrightarrow> str_contains en (file_name item) \<longrightarrow>
      ea \<noteq> [] \<longrightarrow> find_id (parsed item) ea = None \<longrightarrow>
      scan_step sn sa en ea st item =
        st\<lparr>flag := False, out := out st @ [''Anchor not found in the document.'']\<rparr>)
   \<and> (href_name sh = href_name eh \<longrightarrow>
       filter (\<lambda>it. str_contains (href_name sh) (file_name it)) bk = [] \<longrightarrow>
       extract_text_by_bookmark bk sh eh = ([], [''href not found.'']))
   \<and> extract_text_after_anchor_exc sp anchor = Inr (extract_text_after_anchor sp anchor)
   \<and> extract_text_before_anchor_exc sp anchor = Inr (extract_text_before_anchor sp anchor)
   \<and> extract_text_between_anchors_exc sp start_anchor end_anchor =
        Inr (extract_text_between_anchors sp start_anchor end_anchor)
   \<and> extract_text_by_bookmark_exc bk sh eh = Inr (extract_text_by_bookmark bk sh eh)
   \<and> split_text_by_bookmarks_exc b = Inr (split_text_by_bookmarks b)"
proof (intro conjI impI)
  assume "find_id sp anchor = None"
  then show "extract_text_after_anchor sp anchor = ([], [''Anchor not found in the document.''])"
    and "extract_text_before_anchor sp anchor = ([], [''Anchor not found in the document.''])"
    by (simp_all add: extract_text_after_anchor_def extract_text_before_anchor_def)
next
  assume "find_id sp start_anchor = None" and "find_id sp end_anchor = None"
  then show "extract_text_between_anchors sp start_anchor end_anchor =
        ([], [''Anchor not found in the document.''])"
    by (simp add: extract_text_between_anchors_def extract_text_before_anchor_def)
next
  assume "str_contains sn (file_name item)" and "sa \<noteq> []" and "find_id (parsed item) sa = None"
  then show "scan_step sn sa en ea st item =
        st\<lparr>flag := True, out := out st @ [''Anchor not found in the document.'']\<rparr>"
    by (simp add: scan_step_def extract_text_after_anchor_def)
next
  assume "\<not> str_contains sn (file_name item)" and "str_contains en (file_name item)"
    and "ea \<noteq> []" and "find_id (parsed item) ea = None"
  then show "scan_step sn sa en ea st item =
        st\<lparr>flag := False, out := out st @ [''Anchor not found in the document.'']\<rparr>"
    by (simp add: scan_step_def extract_text_before_anchor_def)
next
  assume same: "href_name sh = href_name eh"
    and none: "filter (\<lambda>it. str_contains (href_name sh) (file_name it)) bk = []"
  from none have "List.find (\<lambda>it. str_contains (href_name sh) (file_name it)) bk = None"
    by (simp add: find_None_iff filter_empty_conv)
  with same show "extract_text_by_bookmark bk sh eh = ([], [''href not found.''])"
    by (rule same_document_not_found)
next
  show "extract_text_after_anchor_exc sp anchor = Inr (extract_text_after_anchor sp anchor)"
    by (rule after_anchor_returns)
  show "extract_text_before_anchor_exc sp anchor = Inr (extract_text_before_anchor sp anchor)"
    by (rule before_anchor_returns)
  show "extract_text_between_anchors_exc sp start_anchor end_anchor =
        Inr (extract_text_between_anchors sp start_anchor end_anchor)"
    by (rule between_anchors_returns)
  show "extract_text_by_bookmark_exc bk sh eh = Inr (extract_text_by_bookmark bk sh eh)"
    by (rule by_bookmark_returns)
  show "split_text_by_bookmarks_exc b = Inr (split_text_by_bookmarks b)"
    by (rule split_returns)
qed

theorem lookup_failure_is_reported_witness:
  "find_id [Tag ''p'' [(''id'', ''s'')] [NavigableString ''X'']] ''q'' = None
   \<and> find_id [Tag ''p'' [(''id'', ''s'')] [NavigableString ''X'']] ''r'' = None
   \<and> extract_text_after_anchor [Tag ''p'' [(''id'', ''s'')] [NavigableString ''X'']] ''q''
      = ([], [''Anchor not found in the document.''])
   \<and> extract_text_before_anchor [Tag ''p'' [(''id'', ''s'')] [NavigableString ''X'']] ''q''
      = ([], [''Anchor not found in the document.''])
   \<and> extract_text_between_anchors [Tag ''p'' [(''id'', ''s'')] [NavigableString ''X'']] ''q'' ''r''
      = ([], [''Anchor not found in the document.''])
   \<and> str_contains ''a.html'' ''x/a.html''
   \<and> scan_step ''a.html'' ''q'' ''b.html'' ''r'' \<lparr>flag = False, text_acc = ''T'', out = []\<rparr>
        \<lparr>file_name = ''x/a.html'', parsed = [Tag ''p'' [(''id'', ''s'')] [NavigableString ''X'']]\<rparr>
      = \<lparr>flag = True, text_acc = ''T'', out = [''Anchor not found in the document.'']\<rparr>
   \<and> \<not> str_contains ''a.html'' ''x/b.html''
   \<and> str_contains ''b.html'' ''x/b.html''
   \<and> scan_step ''a.html'' ''q'' ''b.html'' ''r'' \<lparr>flag = True, text_acc = ''T'', out = []\<rparr>
        \<lparr>file_name = ''x/b.html'', parsed = [Tag ''p'' [(''id'', ''s'')] [NavigableString ''X'']]\<rparr>
      = \<lparr>flag = False, text_acc = ''T'', out = [''Anchor not found in the document.'']\<rparr>
   \<and> href_name ''a.html#s'' = href_name ''a.html#e''
   \<and> filter (\<lambda>it. str_contains (href_name ''a.html#s'') (file_name it))
        [\<lparr>file_name = ''b.html'', parsed = [NavigableString ''B'']\<rparr>] = []
   \<and> extract_text_by_bookmark [\<lparr>file_name = ''b.html'', parsed = [NavigableString ''B'']\<rparr>]
        ''a.html#s'' ''a.html#e''
      = ([], [''href not found.''])
   \<and> extract_text_by_bookmark_exc [\<lparr>file_name = ''b.html'', parsed = [NavigableString ''B'']\<rparr>]
        ''a.html#s'' ''a.html#e''
      = Inr ([], [''href not found.''])
   \<and> split_text_by_bookmarks_exc
        \<lparr>toc_of = [Link ''A'' ''a.html#s'', Link ''B'' ''c.html''],
         get_items = [\<lparr>file_name = ''b.html'', parsed = [NavigableString ''B'']\<rparr>]\<rparr>
      = Inr ([\<lparr>title = ''A'', content = []\<rparr>, \<lparr>title = ''B'', content = []\<rparr>], [''A'', ''B''])"
proof -
  let ?sp = "[Tag ''p'' [(''id'', ''s'')] [NavigableString ''X'']]"
  let ?bk = "[\<lparr>file_name = ''b.html'', parsed = [NavigableString ''B'']\<rparr>]"
  let ?b = "\<lparr>toc_of = [Link ''A'' ''a.html#s'', Link ''B'' ''c.html''], get_items = ?bk\<rparr>"
  note ev = find_id_def id_matches_def href_name_def href_anchor_def
  have n: "find_id ?sp ''q'' = None" "find_id ?sp ''r'' = None"
    by (simp_all add: ev)
  have 1: "extract_text_after_anchor ?sp ''q'' = ([], [''Anchor not found in the document.''])
     \<and> extract_text_before_anchor ?sp ''q'' = ([], [''Anchor not found in the document.''])
     \<and> extract_text_between_anchors ?sp ''q'' ''r'' = ([], [''Anchor not found in the document.''])
     \<and> extract_text_by_bookmark ?bk ''a.html#s'' ''a.html#e'' = ([], [''href not found.''])
     \<and> extract_text_by_bookmark_exc ?bk ''a.html#s'' ''a.html#e'' = Inr ([], [''href not found.''])
     \<and> href_name ''a.html#s'' = href_name ''a.html#e''
     \<and> filter (\<lambda>it. str_contains (href_name ''a.html#s'') (file_name it)) ?bk = []"
    using n lookup_failure_is_reported [where sp = ?sp and anchor = "''q''"
            and start_anchor = "''q''" and end_anchor = "''r''"
            and sh = "''a.html#s''" and eh = "''a.html#e''" and bk = ?bk]
    by (simp add: ev)
  have 2: "str_contains ''a.html'' ''x/a.html''
     \<and> scan_step ''a.html'' ''q'' ''b.html'' ''r'' \<lparr>flag = False, text_acc = ''T'', out = []\<rparr>
          \<lparr>file_name = ''x/a.html'', parsed = ?sp\<rparr>
        = \<lparr>flag = True, text_acc = ''T'', out = [''Anchor not found in the document.'']\<rparr>"
    using n lookup_failure_is_reported [where sn = "''a.html''" and sa = "''q''"
            and en = "''b.html''" and ea = "''r''"
            and item = "\<lparr>file_name = ''x/a.html'', parsed = ?sp\<rparr>"
            and st = "\<lparr>flag = False, text_acc = ''T'', out = []\<rparr>"]
    by simp
  have 3: "\<not> str_contains ''a.html'' ''x/b.html'' \<and> str_contains ''b.html'' ''x/b.html''
     \<and> scan_step ''a.html'' ''q'' ''b.html'' ''r'' \<lparr>flag = True, text_acc = ''T'', out = []\<rparr>
          \<lparr>file_name = ''x/b.html'', parsed = ?sp\<rparr>
        = \<lparr>flag = False, text_acc = ''T'', out = [''Anchor not found in the document.'']\<rparr>"
    using n lookup_failure_is_reported [where sn = "''a.html''" and sa = "''q''"
            and en = "''b.html''" and ea = "''r''"
            and item = "\<lparr>file_name = ''x/b.html'', parsed = ?sp\<rparr>"
            and st = "\<lparr>flag = True, text_acc = ''T'', out = []\<rparr>"]
    by simp
  have 4: "split_text_by_bookmarks_exc ?b
      = Inr ([\<lparr>title = ''A'', content = []\<rparr>, \<lparr>title = ''B'', content = []\<rparr>], [''A'', ''B''])"
    using lookup_failure_is_reported [where b = ?b]
    by (simp add: split_text_by_bookmarks_def extract_bookmarks_def split_step_def
        extract_text_by_bookmark_def scan_loop_def scan_step_def Let_def ev)
  from n 1 2 3 4 show ?thesis by blast
qed

section \<open>The content of a chapter\<close>

text \<open>
  C4. The claim: the content of every chapter is its fragments joined by newlines, and
  is stripped, also when the span crosses documents. On the code a scan over several
  documents appends what each document adds with nothing in between and strips
  nothing: from \<open>a.html\<close> (text \<open>X\<close> and a space) over \<open>b.html\<close> (a space, \<open>Y\<close> and a
  newline) to \<open>c.html\<close> the content keeps the two spaces and the final newline. It is
  not stripped, and it is not the stripped join of the two texts. And within one
  document, when the start anchor is found and the end anchor is not, the content is
  the text after the start anchor, which is not stripped: a \<open>p\<close> with id \<open>s\<close> whose
  text is \<open>X\<close> between two spaces gives that text with its spaces.
\<close>

theorem chapter_content_counterexample:
  "fst (extract_text_by_bookmark
     [\<lparr>file_name = ''a.html'', parsed = [NavigableString ''X '']\<rparr>,
      \<lparr>file_name = ''b.html'', parsed = [NavigableString '' Y\<newline>'']\<rparr>]
     ''a.html'' ''c.html'')
     = ''X  Y\<newline>''
   \<and> strip ''X  Y\<newline>'' \<noteq> ''X  Y\<newline>''
   \<and> strip (str_join newline [''X '', '' Y\<newline>'']) \<noteq> ''X  Y\<newline>''
   \<and> fst (extract_text_by_bookmark
        [\<lparr>file_name = ''a.html'',
          parsed = [Tag ''p'' [(''id'', ''s'')] [NavigableString '' X '']]\<rparr>]
        ''a.html#s'' ''a.html#e'')
     = '' X ''
   \<and> strip '' X '' \<noteq> '' X ''"
  by (simp add: extract_text_by_bookmark_def href_name_def href_anchor_def scan_loop_def
      scan_step_def soup_get_text_def Let_def strip_def isspace_def whitespace_def newline_def
      extract_text_between_anchors_def extract_text_after_anchor_def find_id_def id_matches_def)

text \<open>
  C4, as the code has it. When both references name the same document, the content is
  the fragments joined by newlines and stripped: no fragment at all when no file name
  of the book contains the name or when neither anchor is found in the document, the
  fragments before the end anchor when only the start anchor is missing, the fragments
  between the anchors when both are found. In these cases stripping the content again
  changes nothing. In the one case left, the start anchor found and the end anchor
  missing, the content is the fragments after the start anchor joined by newlines.
  When the references name different documents, the content is what the documents add,
  one after the other with nothing in between.
\<close>

theorem chapter_content:
  "(href_name sh = href_name eh \<longrightarrow>
      List.find (\<lambda>it. str_contains (href_name sh) (file_name it)) bk = None \<longrightarrow>
      fst (extract_text_by_bookmark bk sh eh) = strip (str_join newline []))
   \<and> (href_name sh = href_name eh \<longrightarrow>
      List.find (\<lambda>it. str_contains (href_name sh) (file_name it)) bk = Some it \<longrightarrow>
        (find_id (parsed it) (href_anchor sh) = None \<longrightarrow>
         find_id (parsed it) (href_anchor eh) = None \<longrightarrow>
           fst (extract_text_by_bookmark bk sh eh) = strip (str_join newline []))
      \<and> (find_id (parsed it) (href_anchor sh) = None \<longrightarrow>
         find_id (parsed it) (href_anchor eh) = Some ee \<longrightarrow>
           fst (extract_text_by_bookmark bk sh eh) =
             strip (str_join newline (fragments_before ee)))
      \<and> (find_id (parsed it) (href_anchor sh) = Some se \<longrightarrow>
         find_id (parsed it) (href_anchor eh) = Some ee \<longrightarrow>
           fst (extract_text_by_bookmark bk sh eh) =
             strip (str_join newline (fragments_between se ee)))
      \<and> (find_id (parsed it) (href_anchor sh) = Some se \<longrightarrow>
         find_id (parsed it) (href_anchor eh) = None \<longrightarrow>
           fst (extract_text_by_bookmark bk sh eh) = str_join newline (fragments_after se)))
   \<and> (href_name sh = href_name eh \<longrightarrow>
      List.find (\<lambda>it. str_contains (href_name sh) (file_name it)) bk = None
      \<or> List.find (\<lambda>it. str_contains (href_name sh) (file_name it)) bk = Some it
          \<and> (find_id (parsed it) (href_anchor sh) = None
               \<or> find_id (parsed it) (href_anchor eh) \<noteq> None) \<longrightarrow>
      strip (fst (extract_text_by_bookmark bk sh eh)) = fst (extract_text_by_bookmark bk sh eh))
   \<and> (href_name sh \<noteq> href_name eh \<longrightarrow>
      fst (extract_text_by_bookmark bk sh eh) =
        concat (document_texts (href_name sh) (href_anchor sh) (href_name eh) (href_anchor eh)
                  False bk))"
proof (intro conjI impI)
  assume "href_name sh = href_name eh"
    and "List.find (\<lambda>it. str_contains (href_name sh) (file_name it)) bk = None"
  then show "fst (extract_text_by_bookmark bk sh eh) = strip (str_join newline [])"
    by (simp add: same_document_not_found strip_Nil)
next
  assume same: "href_name sh = href_name eh"
    and it: "List.find (\<lambda>it. str_contains (href_name sh) (file_name it)) bk = Some it"
  note b = same_document_found [OF same it]
  {
    assume "find_id (parsed it) (href_anchor sh) = None"
      and "find_id (parsed it) (href_anchor eh) = None"
    then show "fst (extract_text_by_bookmark bk sh eh) = strip (str_join newline [])"
      by (simp add: b extract_text_between_anchors_def extract_text_before_anchor_def strip_Nil)
  next
    assume "find_id (parsed it) (href_anchor sh) = None"
      and ee: "find_id (parsed it) (href_anchor eh) = Some ee"
    then show "fst (extract_text_by_bookmark bk sh eh) =
                 strip (str_join newline (fragments_before ee))"
      by (simp add: b extract_text_between_anchors_def before_fragments [OF ee])
  next
    assume se: "find_id (parsed it) (href_anchor sh) = Some se"
      and ee: "find_id (parsed it) (href_anchor eh) = Some ee"
    show "fst (extract_text_by_bookmark bk sh eh) =
            strip (str_join newline (fragments_between se ee))"
      by (simp add: b between_found [OF se ee])
  next
    assume se: "find_id (parsed it) (href_anchor sh) = Some se"
      and "find_id (parsed it) (href_anchor eh) = None"
    then show "fst (extract_text_by_bookmark bk sh eh) = str_join newline (fragments_after se)"
      by (simp add: b extract_text_between_anchors_def after_fragments [OF se])
  }
next
  assume same: "href_name sh = href_name eh"
    and ok: "List.find (\<lambda>it. str_contains (href_name sh) (file_name it)) bk = None
      \<or> List.find (\<lambda>it. str_contains (href_name sh) (file_name it)) bk = Some it
          \<and> (find_id (parsed it) (href_anchor sh) = None
               \<or> find_id (parsed it) (href_anchor eh) \<noteq> None)"
  show "strip (fst (extract_text_by_bookmark bk sh eh)) = fst (extract_text_by_bookmark bk sh eh)"
  proof (cases "List.find (\<lambda>it. str_contains (href_name sh) (file_name it)) bk")
    case None
    with same show ?thesis by (simp add: same_document_not_found strip_Nil)
  next
    case (Some d)
    with ok have d: "List.find (\<lambda>it. str_contains (href_name sh) (file_name it)) bk = Some it"
      and a: "find_id (parsed it) (href_anchor sh) = None
               \<or> find_id (parsed it) (href_anchor eh) \<noteq> None"
      by auto
    note b = same_document_found [OF same d]
    show ?thesis
    proof (cases "find_id (parsed it) (href_anchor sh)")
      case None
      then show ?thesis
        by (cases "find_id (parsed it) (href_anchor eh)")
          (simp_all add: b extract_text_between_anchors_def extract_text_before_anchor_def
            strip_Nil strip_strip)
    next
      case s: (Some se')
      with a obtain ee' where e: "find_id (parsed it) (href_anchor eh) = Some ee'"
        by auto
      show ?thesis by (simp add: b between_found [OF s e] strip_strip)
    qed
  qed
next
  assume "href_name sh \<noteq> href_name eh"
  then show "fst (extract_text_by_bookmark bk sh eh) =
        concat (document_texts (href_name sh) (href_anchor sh) (href_name eh) (href_anchor eh)
                  False bk)"
    by (rule multi_document_text)
qed

theorem chapter_content_witness:
  "href_name ''a.html#s'' = href_name ''a.html#e''
   \<and> List.find (\<lambda>it. str_contains (href_name ''a.html#s'') (file_name it))
        [\<lparr>file_name = ''b.html'', parsed = [NavigableString ''B'']\<rparr>] = None
   \<and> fst (extract_text_by_bookmark [\<lparr>file_name = ''b.html'', parsed = [NavigableString ''B'']\<rparr>]
        ''a.html#s'' ''a.html#e'') = []
   \<and> List.find (\<lambda>it. str_contains (href_name ''a.html#s'') (file_name it))
        [\<lparr>file_name = ''x/a.html'',
          parsed = [NavigableString '' W '', Tag ''h1'' [(''id'', ''s'')] [NavigableString ''X''],
                    NavigableString '' Y '', Tag ''h1'' [(''id'', ''e'')] [NavigableString ''Z'']]\<rparr>]
      = Some \<lparr>file_name = ''x/a.html'',
          parsed = [NavigableString '' W '', Tag ''h1'' [(''id'', ''s'')] [NavigableString ''X''],
                    NavigableString '' Y '', Tag ''h1'' [(''id'', ''e'')] [NavigableString ''Z'']]\<rparr>
   \<and> fst (extract_text_by_bookmark
        [\<lparr>file_name = ''x/a.html'',
          parsed = [NavigableString '' W '', Tag ''h1'' [(''id'', ''s'')] [NavigableString ''X''],
                    NavigableString '' Y '', Tag ''h1'' [(''id'', ''e'')] [NavigableString ''Z'']]\<rparr>]
        ''a.html#q'' ''a.html#r'') = []
   \<and> fst (extract_text_by_bookmark
        [\<lparr>file_name = ''x/a.html'',
          parsed = [NavigableString '' W '', Tag ''h1'' [(''id'', ''s'')] [NavigableString ''X''],
                    NavigableString '' Y '', Tag ''h1'' [(''id'', ''e'')] [NavigableString ''Z'']]\<rparr>]
        ''a.html#q'' ''a.html#e'') = ''W\<newline>X\<newline>Y''
   \<and> fst (extract_text_by_bookmark
        [\<lparr>file_name = ''x/a.html'',
          parsed = [NavigableString '' W '', Tag ''h1'' [(''id'', ''s'')] [NavigableString ''X''],
                    NavigableString '' Y '', Tag ''h1'' [(''id'', ''e'')] [NavigableString ''Z'']]\<rparr>]
        ''a.html#s'' ''a.html#e'') = ''X\<newline>Y''
   \<and> strip ''X\<newline>Y'' = ''X\<newline>Y''
   \<and> fst (extract_text_by_bookmark
        [\<lparr>file_name = ''x/a.html'',
          parsed = [NavigableString '' W '', Tag ''h1'' [(''id'', ''s'')] [NavigableString ''X''],
                    NavigableString '' Y '', Tag ''h1'' [(''id'', ''e'')] [NavigableString ''Z'']]\<rparr>]
        ''a.html#s'' ''a.html#q'') = ''X\<newline>Y\<newline>Z''
   \<and> href_name ''a.html'' \<noteq> href_name ''c.html''
   \<and> fst (extract_text_by_bookmark
        [\<lparr>file_name = ''a.html'', parsed = [NavigableString ''X '']\<rparr>,
         \<lparr>file_name = ''b.html'', parsed = [NavigableString '' Y\<newline>'']\<rparr>]
        ''a.html'' ''c.html'') = concat [''X '', '' Y\<newline>'']"
proof -
  let ?d = "[NavigableString '' W '', Tag ''h1'' [(''id'', ''s'')] [NavigableString ''X''],
             NavigableString '' Y '', Tag ''h1'' [(''id'', ''e'')] [NavigableString ''Z'']]"
  let ?it = "\<lparr>file_name = ''x/a.html'', parsed = ?d\<rparr>"
  let ?se = "([NavigableString '' W ''], Tag ''h1'' [(''id'', ''s'')] [NavigableString ''X''],
              [NavigableString '' Y '', Tag ''h1'' [(''id'', ''e'')] [NavigableString ''Z'']])"
  let ?ee = "([NavigableString '' W '', Tag ''h1'' [(''id'', ''s'')] [NavigableString ''X''],
               NavigableString '' Y ''], Tag ''h1'' [(''id'', ''e'')] [NavigableString ''Z''],
              [])"
  note ev = href_name_def href_anchor_def find_id_def id_matches_def attrs_eq_def
      fragments_between_def fragments_after_def fragments_before_def own_text_def
      start_text_def end_text_def soup_get_text_def
      strip_def isspace_def whitespace_def newline_def
  have 1: "href_name ''a.html#s'' = href_name ''a.html#e''
     \<and> List.find (\<lambda>it. str_contains (href_name ''a.html#s'') (file_name it))
        [\<lparr>file_name = ''b.html'', parsed = [NavigableString ''B'']\<rparr>] = None
     \<and> fst (extract_text_by_bookmark [\<lparr>file_name = ''b.html'', parsed = [NavigableString ''B'']\<rparr>]
        ''a.html#s'' ''a.html#e'') = []"
    using chapter_content [where sh = "''a.html#s''" and eh = "''a.html#e''"
            and bk = "[\<lparr>file_name = ''b.html'', parsed = [NavigableString ''B'']\<rparr>]"]
    by (simp add: ev)
  have 2: "List.find (\<lambda>it. str_contains (href_name ''a.html#s'') (file_name it)) [?it] = Some ?it"
    by (simp add: ev)
  have 3: "fst (extract_text_by_bookmark [?it] ''a.html#q'' ''a.html#r'') = []"
    using chapter_content [where sh = "''a.html#q''" and eh = "''a.html#r''" and bk = "[?it]"
            and it = ?it] by (simp add: ev)
  have 4: "fst (extract_text_by_bookmark [?it] ''a.html#q'' ''a.html#e'') = ''W\<newline>X\<newline>Y''"
    using chapter_content [where sh = "''a.html#q''" and eh = "''a.html#e''" and bk = "[?it]"
            and it = ?it and ee = ?ee] by (simp add: ev)
  have 5: "fst (extract_text_by_bookmark [?it] ''a.html#s'' ''a.html#e'') = ''X\<newline>Y''
      \<and> strip ''X\<newline>Y'' = ''X\<newline>Y''"
    using chapter_content [where sh = "''a.html#s''" and eh = "''a.html#e''" and bk = "[?it]"
            and it = ?it and ee = ?ee and se = ?se] by (simp add: ev)
  have 6: "fst (extract_text_by_bookmark [?it] ''a.html#s'' ''a.html#q'') = ''X\<newline>Y\<newline>Z''"
    using chapter_content [where sh = "''a.html#s''" and eh = "''a.html#q''" and bk = "[?it]"
            and it = ?it and se = ?se] by (simp add: ev)
  have 7: "href_name ''a.html'' \<noteq> href_name ''c.html''
     \<and> fst (extract_text_by_bookmark
        [\<lparr>file_name = ''a.html'', parsed = [NavigableString ''X '']\<rparr>,
         \<lparr>file_name = ''b.html'', parsed = [NavigableString '' Y\<newline>'']\<rparr>]
        ''a.html'' ''c.html'') = concat [''X '', '' Y\<newline>'']"
    using chapter_content [where sh = "''a.html''" and eh = "''c.html''"
            and bk = "[\<lparr>file_name = ''a.html'', parsed = [NavigableString ''X '']\<rparr>,
                      \<lparr>file_name = ''b.html'', parsed = [NavigableString '' Y\<newline>'']\<rparr>]"]
    by (simp add: ev)
  from 1 2 3 4 5 6 7 show ?thesis by blast
qed

text \<open>
  C9. When the references name different documents, the scan goes over every item of
  the book. For an item whose file name contains the start name, whatever comes before
  it in the book (the end document too): the text is the text for the items before it,
  then the text this item adds as a start document, then the text the scan of the
  items after it adds with the flag set.
\<close>

theorem scan_visits_every_item:
  assumes "href_name sh \<noteq> href_name eh"
    and "str_contains (href_name sh) (file_name it)"
  shows "fst (extract_text_by_bookmark (pre @ it # post) sh eh) =
           fst (extract_text_by_bookmark pre sh eh) @ start_text (href_anchor sh) it @
           text_acc (scan_loop (href_name sh) (href_anchor sh) (href_name eh) (href_anchor eh)
                      post \<lparr>flag = True, text_acc = [], out = []\<rparr>)"
  using assms by (simp add: multi_document_text document_texts_append scan_loop_text)

theorem scan_visits_every_item_witness:
  "href_name ''a.html'' \<noteq> href_name ''b.html''
   \<and> str_contains (href_name ''a.html'') ''x/a.html''
   \<and> fst (extract_text_by_bookmark
        [\<lparr>file_name = ''a.html'', parsed = [NavigableString ''A'']\<rparr>,
         \<lparr>file_name = ''b.html'', parsed = [NavigableString ''B'']\<rparr>,
         \<lparr>file_name = ''x/a.html'', parsed = [NavigableString ''C'']\<rparr>,
         \<lparr>file_name = ''d.html'', parsed = [NavigableString ''D'']\<rparr>] ''a.html'' ''b.html'')
      = fst (extract_text_by_bookmark
        [\<lparr>file_name = ''a.html'', parsed = [NavigableString ''A'']\<rparr>,
         \<lparr>file_name = ''b.html'', parsed = [NavigableString ''B'']\<rparr>] ''a.html'' ''b.html'')
        @ ''C'' @ ''D''
   \<and> fst (extract_text_by_bookmark
        [\<lparr>file_name = ''a.html'', parsed = [NavigableString ''A'']\<rparr>,
         \<lparr>file_name = ''b.html'', parsed = [NavigableString ''B'']\<rparr>] ''a.html'' ''b.html'')
      = ''A''"
  using scan_visits_every_item
          [of "''a.html''" "''b.html''"
              "\<lparr>file_name = ''x/a.html'', parsed = [NavigableString ''C'']\<rparr>"
              "[\<lparr>file_name = ''a.html'', parsed = [NavigableString ''A'']\<rparr>,
                \<lparr>file_name = ''b.html'', parsed = [NavigableString ''B'']\<rparr>]"
              "[\<lparr>file_name = ''d.html'', parsed = [NavigableString ''D'']\<rparr>]"]
  by (simp add: href_name_def href_anchor_def start_text_def soup_get_text_def scan_loop_def
      scan_step_def extract_text_by_bookmark_def Let_def)

section \<open>Chapters\<close>

text \<open>
  C5. There are as many chapters as bookmarks, and the titles of the chapters are the
  titles of the bookmarks, in the same order. This holds for the empty list of
  bookmarks too.
\<close>

theorem one_chapter_per_bookmark:
  "length (fst (split_text_by_bookmarks bk)) = length (extract_bookmarks (toc_of bk) [])
   \<and> map title (fst (split_text_by_bookmarks bk)) = map fst (extract_bookmarks (toc_of bk) [])"
proof -
  have "map (fst \<circ> snd) (enumerate 0 bms) = map fst bms" for bms :: "bookmark list"
    using map_snd_enumerate [of 0 bms] by (metis map_map)
  then have t: "map title (fst (split_text_by_bookmarks bk)) =
      map fst (extract_bookmarks (toc_of bk) [])"
    by (simp add: split_text_by_bookmarks_def Let_def split_loop_titles)
  from t have "length (fst (split_text_by_bookmarks bk)) =
      length (extract_bookmarks (toc_of bk) [])" by (rule map_eq_imp_length_eq)
  with t show ?thesis by (rule conjI [rotated])
qed

end
